theory Spec2Isabelle
  imports Complex_Main
begin

section \<open>The refresh cycle of the monitoring dialog (Qt5/dialog.cpp)\<close>

text \<open>
  The dialog owns a periodic timer; each timeout runs \<open>Dialog::updateDataFromRust\<close>, which
  asks the metrics provider for a JSON payload, releases the provider's buffer, decodes the
  payload and writes thirteen widgets (eight gauges, five text labels).

  Conventions of the model.
  \<^item> A C++ \<open>double\<close> is the real number it denotes. The division of two doubles is the
    exact quotient rounded to the nearest binary64 number (\<open>fl\<close> below). NaN and the
    infinities do not occur in a JSON document, and a division by 1000 or by 1000000 does
    not overflow.
  \<^item> A \<open>QString\<close> is a list of characters; the degree sign is the single character
    with code \<open>0xB0\<close>.
  \<^item> The provider's C string is a heap buffer; \<open>NULL\<close> is \<open>None\<close>.
\<close>

subsection \<open>The widgets\<close>

datatype gauge = barCPU1 | barGPU | barNPU1 | barRGA1 | barMem | barSwap | barTemp | barFan

datatype label = freqCPU1 | freqGPU | freqNPU1 | freqRGA1 | freqTemp

text \<open>
  Modelled from the spec: the widget classes are declared in the generated header
  \<open>ui_dialog.h\<close>, which is not among the sources. A gauge is taken to keep the number handed
  to \<open>setValue\<close> (the spec's "bounded indicator value", for example 45.5), a label the
  string handed to \<open>setText\<close>.
\<close>

record Dialog =
  bars :: "gauge \<Rightarrow> real"
  texts :: "label \<Rightarrow> string"

text \<open>The calls the cycle makes on its collaborators, in the order they happen.\<close>

datatype call = FreeString nat | SetValue gauge | SetText label

record world =
  ui :: Dialog
  heap :: "nat \<rightharpoonup> string"
  next_addr :: nat
  calls :: "call list"
  faulted :: bool

definition setValue :: "gauge \<Rightarrow> real \<Rightarrow> world \<Rightarrow> world" where
  "setValue g v w = w\<lparr>ui := (ui w)\<lparr>bars := (bars (ui w))(g := v)\<rparr>, calls := calls w @ [SetValue g]\<rparr>"

definition setText :: "label \<Rightarrow> string \<Rightarrow> world \<Rightarrow> world" where
  "setText l s w = w\<lparr>ui := (ui w)\<lparr>texts := (texts (ui w))(l := s)\<rparr>, calls := calls w @ [SetText l]\<rparr>"

subsection \<open>The provider and its buffer\<close>

text \<open>
  Modelled from the spec: \<open>get_system_metrics_json\<close> (declared in \<open>rtop_rust.h\<close>, not among
  the sources) returns either no result or a freshly allocated buffer holding the payload;
  the argument \<open>provided\<close> is what the provider has to say in this cycle.
\<close>

definition get_system_metrics_json :: "string option \<Rightarrow> world \<Rightarrow> nat option \<times> world" where
  "get_system_metrics_json provided w =
     (case provided of
        None \<Rightarrow> (None, w)
      | Some s \<Rightarrow> (Some (next_addr w),
                   w\<lparr>heap := (heap w)(next_addr w \<mapsto> s), next_addr := Suc (next_addr w)\<rparr>))"

text \<open>
  Modelled from the spec: \<open>free_string\<close> (declared in \<open>rtop_rust.h\<close>) releases a buffer of the
  provider. Releasing an address that holds no live buffer is a fault (double release).
\<close>

definition free_string :: "nat \<Rightarrow> world \<Rightarrow> world" where
  "free_string p w =
     (case heap w p of
        None \<Rightarrow> w\<lparr>calls := calls w @ [FreeString p], faulted := True\<rparr>
      | Some s \<Rightarrow> w\<lparr>heap := (heap w)(p := None), calls := calls w @ [FreeString p]\<rparr>)"

text \<open>\<open>QString::fromUtf8(json_str)\<close> copies the buffer; reading a released buffer is a fault.\<close>

definition fromUtf8 :: "nat \<Rightarrow> world \<Rightarrow> string \<times> world" where
  "fromUtf8 p w =
     (case heap w p of
        None \<Rightarrow> ([], w\<lparr>faulted := True\<rparr>)
      | Some s \<Rightarrow> (s, w))"

subsection \<open>The JSON values of Qt\<close>

datatype QJsonValue =
    JNull
  | JBool bool
  | JDouble real
  | JString string
  | JArray "QJsonValue list"
  | JObject "(string \<times> QJsonValue) list"
  | JUndefined

type_synonym QJsonObject = "(string \<times> QJsonValue) list"

datatype QJsonDocument =
    NullDocument
  | ArrayDocument "QJsonValue list"
  | ObjectDocument QJsonObject

text \<open>\<open>QJsonDocument::object()\<close>: the empty object unless the document holds an object.\<close>

definition object :: "QJsonDocument \<Rightarrow> QJsonObject" where
  "object doc = (case doc of ObjectDocument kvs \<Rightarrow> kvs | _ \<Rightarrow> [])"

text \<open>\<open>obj["key"]\<close>: the value stored under the key, and a value that is no number otherwise.\<close>

definition at_key :: "QJsonObject \<Rightarrow> string \<Rightarrow> QJsonValue" where
  "at_key obj k = (case map_of obj k of None \<Rightarrow> JUndefined | Some v \<Rightarrow> v)"

text \<open>\<open>QJsonValue::toDouble()\<close>: the number, and the default 0 for every other value.\<close>

definition toDouble :: "QJsonValue \<Rightarrow> real" where
  "toDouble v = (case v of JDouble d \<Rightarrow> d | _ \<Rightarrow> 0)"

text \<open>
  \<open>QJsonValue::toInt()\<close>: the number when it is a whole number that fits a 32-bit \<open>int\<close>,
  and the default 0 for every other value (also for a number with a fractional part).
\<close>

definition toInt :: "QJsonValue \<Rightarrow> int" where
  "toInt v =
     (case v of
        JDouble d \<Rightarrow>
          (if real_of_int \<lfloor>d\<rfloor> = d \<and> - (2 ^ 31) \<le> \<lfloor>d\<rfloor> \<and> \<lfloor>d\<rfloor> < 2 ^ 31 then \<lfloor>d\<rfloor> else 0)
      | _ \<Rightarrow> 0)"

subsection \<open>Division of doubles\<close>

text \<open>
  \<open>ilog k x\<close> is the position of the leading bit of \<open>x\<close>: for \<open>1 \<le> x < 2 ^ (2 ^ k)\<close> it is the
  \<open>e\<close> with \<open>2 ^ e \<le> x < 2 ^ (e + 1)\<close>, found bit by bit; below 1 it is 0.
\<close>

fun ilog :: "nat \<Rightarrow> real \<Rightarrow> nat" where
  "ilog 0 x = 0"
| "ilog (Suc k) x =
     (if 2 ^ (2 ^ k) \<le> x then 2 ^ k + ilog k (x / 2 ^ (2 ^ k)) else ilog k x)"

text \<open>Rounding to the nearest integer, a tie to the even one.\<close>

definition rne :: "real \<Rightarrow> int" where
  "rne y =
     (let f = \<lfloor>y\<rfloor>; r = y - real_of_int f
      in if r < 1 / 2 then f else if 1 / 2 < r then f + 1 else if even f then f else f + 1)"

text \<open>
  Rounding a real number to binary64 (IEEE 754, round to nearest, ties to even): the
  magnitude is counted in units of \<open>2\<^sup>-\<^sup>1\<^sup>0\<^sup>7\<^sup>4\<close>, the smallest positive double; a number whose
  leading bit is at position \<open>k\<close> keeps its 53 leading bits, that is, it is rounded to a
  multiple of \<open>2 ^ (k - 52)\<close> units (of one unit for the subnormal numbers, \<open>k < 52\<close>). Meant for
  \<open>\<bar>x\<bar> < 2 ^ 1024\<close>: overflow to infinity is not modelled.
\<close>

definition fl :: "real \<Rightarrow> real" where
  "fl x =
     (let b = \<bar>x\<bar> * 2 ^ 1074;
          k = ilog 12 b;
          u = 2 ^ (k - 52)
      in sgn x * (real_of_int (rne (b / u)) * u / 2 ^ 1074))"

subsection \<open>\<open>QString::number(d, 'f', prec)\<close>\<close>

definition digit_char :: "nat \<Rightarrow> char" where
  "digit_char d = ''0123456789'' ! (d mod 10)"

fun digits :: "nat \<Rightarrow> string" where
  "digits n = (if n < 10 then [digit_char n] else digits (n div 10) @ [digit_char (n mod 10)])"

declare digits.simps [simp del]

definition pad :: "nat \<Rightarrow> string \<Rightarrow> string" where
  "pad prec ds = replicate (prec - length ds) (CHR ''0'') @ ds"

text \<open>
  Fixed notation with \<open>prec\<close> digits after the point, for the value \<open>d\<close> of a double: the
  magnitude is rounded to the nearest multiple of \<open>10\<^sup>-\<^sup>p\<^sup>r\<^sup>e\<^sup>c\<close> (a tie away from zero), the
  sign is written first.
\<close>

definition number_f :: "real \<Rightarrow> nat \<Rightarrow> string" where
  "number_f d prec =
     (let n = nat \<lfloor>\<bar>d\<bar> * 10 ^ prec + 1 / 2\<rfloor>;
          ip = n div 10 ^ prec;
          fp = n mod 10 ^ prec
      in (if d < 0 then ''-'' else []) @ digits ip @
         (if prec = 0 then [] else ''.'' @ pad prec (digits fp)))"

subsection \<open>\<open>Dialog::updateDataFromRust\<close>\<close>

text \<open>
  Lines 33 to 51: thirteen writes, each fed from one key of the decoded object. The
  quotients \<open>/ 1000000.0\<close> and \<open>/ 1000.0\<close> are divisions of doubles.
\<close>

definition update_widgets :: "QJsonObject \<Rightarrow> world \<Rightarrow> world" where
  "update_widgets obj w0 =
     (let w1 = setValue barCPU1 (toDouble (at_key obj ''cpu_usage'')) w0;
          w2 = setText freqCPU1 (number_f (fl (toDouble (at_key obj ''cpu_freq'') / 1000000)) 2 @ '' GHz'')
                  w1;
          w3 = setValue barGPU (toDouble (at_key obj ''gpu_usage'')) w2;
          w4 = setText freqGPU (number_f (fl (toDouble (at_key obj ''gpu_freq'') / 1000000)) 2 @ '' GHz'')
                  w3;
          w5 = setValue barNPU1 (toDouble (at_key obj ''npu_usage'')) w4;
          w6 = setText freqNPU1 (number_f (fl (toDouble (at_key obj ''npu_freq'') / 1000000)) 2 @ '' GHz'')
                  w5;
          w7 = setValue barRGA1 (toDouble (at_key obj ''rga_usage'')) w6;
          w8 = setText freqRGA1
                  (number_f (fl (toDouble (at_key obj ''rga_aclk_freq'') / 1000000)) 2 @ '' GHz'')
                  w7;
          w9 = setValue barMem (toDouble (at_key obj ''memory_usage'')) w8;
          w10 = setValue barSwap (toDouble (at_key obj ''swap_usage'')) w9;
          w11 = setValue barTemp (fl (toDouble (at_key obj ''temperature'') / 1000)) w10;
          w12 = setText freqTemp
                  (number_f (fl (toDouble (at_key obj ''temperature'') / 1000)) 1
                     @ [CHR '' '', CHR 0xB0, CHR ''C''])
                  w11
      in setValue barFan (real_of_int (toInt (at_key obj ''fan_state''))) w12)"

text \<open>
  The whole slot. \<open>fromJson\<close> stands for \<open>QJsonDocument::fromJson\<close> on the bytes of the
  copied string: it yields the null document for a text that is no JSON document.
\<close>

definition updateDataFromRust :: "(string \<Rightarrow> QJsonDocument) \<Rightarrow> string option \<Rightarrow> world \<Rightarrow> world" where
  "updateDataFromRust fromJson provided w0 =
     (let (json_str, w1) = get_system_metrics_json provided w0
      in case json_str of
           None \<Rightarrow> w1
         | Some p \<Rightarrow>
             (let (json_qstr, w2) = fromUtf8 p w1;
                  w3 = free_string p w2;
                  doc = fromJson json_qstr;
                  obj = object doc
              in update_widgets obj w3))"

text \<open>The timer: one cycle per timeout, whatever the cycle before did.\<close>

fun run :: "(string \<Rightarrow> QJsonDocument) \<Rightarrow> string option list \<Rightarrow> world \<Rightarrow> world" where
  "run fromJson [] w = w"
| "run fromJson (provided # rest) w = run fromJson rest (updateDataFromRust fromJson provided w)"

subsection \<open>A start state and sample payloads\<close>

text \<open>
  Modelled from the spec: the display starts with every gauge at zero and every label unset
  (the initial widget contents come from \<open>dialog.ui\<close>, which is not among the sources).
\<close>

definition Dialog_init :: world where
  "Dialog_init =
     \<lparr>ui = \<lparr>bars = (\<lambda>g. 0), texts = (\<lambda>l. [])\<rparr>,
      heap = Map.empty, next_addr = 0, calls = [], faulted = False\<rparr>"

definition quoted :: "string \<Rightarrow> string" where
  "quoted k = [CHR 0x22] @ k @ [CHR 0x22]"

text \<open>The end-to-end scenario of the spec: four fields present, all others absent.\<close>

definition payload_scenario :: string where
  "payload_scenario =
     ''{'' @ quoted ''cpu_usage'' @ '': 37.2, '' @ quoted ''cpu_freq'' @ '': 1800000000, '' @
     quoted ''temperature'' @ '': 52300, '' @ quoted ''fan_state'' @ '': 2}''"

definition payload_freq :: string where
  "payload_freq = ''{'' @ quoted ''cpu_freq'' @ '': 2400000000}''"

definition payload_fan :: string where
  "payload_fan = ''{'' @ quoted ''fan_state'' @ '': 2.7}''"

definition payload_empty :: string where
  "payload_empty = ''{}''"

definition payload_malformed :: string where
  "payload_malformed = ''cpu_usage = 37.2''"

text \<open>
  A decoder for exactly these payloads: what \<open>QJsonDocument::fromJson\<close> yields on each of
  them, and the null document on every other text (the empty text among them). The numbers
  are written as the payload writes them; 37.2 and 2.7 stand for the doubles nearest to
  them, which the cycle hands on as they are.
\<close>

definition fromJson_sample :: "string \<Rightarrow> QJsonDocument" where
  "fromJson_sample s =
     (if s = payload_scenario then
        ObjectDocument [(''cpu_usage'', JDouble 37.2), (''cpu_freq'', JDouble 1800000000),
                        (''temperature'', JDouble 52300), (''fan_state'', JDouble 2)]
      else if s = payload_freq then ObjectDocument [(''cpu_freq'', JDouble 2400000000)]
      else if s = payload_fan then ObjectDocument [(''fan_state'', JDouble 2.7)]
      else if s = payload_empty then ObjectDocument []
      else NullDocument)"

subsection \<open>Reading the state for the properties\<close>

text \<open>The key that feeds each widget, read off lines 33 to 51.\<close>

definition gauge_key :: "gauge \<Rightarrow> string" where
  "gauge_key g =
     (case g of
        barCPU1 \<Rightarrow> ''cpu_usage'' | barGPU \<Rightarrow> ''gpu_usage'' | barNPU1 \<Rightarrow> ''npu_usage''
      | barRGA1 \<Rightarrow> ''rga_usage'' | barMem \<Rightarrow> ''memory_usage'' | barSwap \<Rightarrow> ''swap_usage''
      | barTemp \<Rightarrow> ''temperature'' | barFan \<Rightarrow> ''fan_state'')"

definition label_key :: "label \<Rightarrow> string" where
  "label_key l =
     (case l of
        freqCPU1 \<Rightarrow> ''cpu_freq'' | freqGPU \<Rightarrow> ''gpu_freq'' | freqNPU1 \<Rightarrow> ''npu_freq''
      | freqRGA1 \<Rightarrow> ''rga_aclk_freq'' | freqTemp \<Rightarrow> ''temperature'')"

text \<open>The display in which every output shows the transform of the value 0.\<close>

definition zero_display :: Dialog where
  "zero_display =
     \<lparr>bars = (\<lambda>g. 0),
      texts = (\<lambda>l. if l = freqTemp then ''0.0'' @ [CHR '' '', CHR 0xB0, CHR ''C'']
                     else ''0.00 GHz'')\<rparr>"

text \<open>The buffers released by a sequence of calls, in order.\<close>

fun releases :: "call list \<Rightarrow> nat list" where
  "releases [] = []"
| "releases (FreeString p # cs) = p # releases cs"
| "releases (c # cs) = releases cs"

text \<open>The widgets written by a sequence of calls, in order.\<close>

fun writes :: "call list \<Rightarrow> call list" where
  "writes [] = []"
| "writes (FreeString p # cs) = writes cs"
| "writes (c # cs) = c # writes cs"

text \<open>
  The number a text in fixed notation denotes: an optional minus sign, the digits before
  the point, the digits after it.
\<close>

definition digit_val :: "char \<Rightarrow> nat" where
  "digit_val c = of_char c - 48"

definition read_nat :: "string \<Rightarrow> nat" where
  "read_nat s = foldl (\<lambda>a c. 10 * a + digit_val c) 0 s"

definition read_fixed :: "string \<Rightarrow> real" where
  "read_fixed s =
     (let neg = (s \<noteq> [] \<and> hd s = CHR ''-'');
          t = (if neg then tl s else s);
          ip = takeWhile (\<lambda>c. c \<noteq> CHR ''.'') t;
          fr = drop (Suc (length ip)) t;
          m = real (read_nat ip) + real (read_nat fr) / 10 ^ length fr
      in if neg then - m else m)"

section \<open>Properties\<close>

subsection \<open>What one write changes\<close>

lemma setValue_sel [simp]:
  "bars (ui (setValue g v w)) = (bars (ui w))(g := v)"
  "texts (ui (setValue g v w)) = texts (ui w)"
  "calls (setValue g v w) = calls w @ [SetValue g]"
  "heap (setValue g v w) = heap w"
  "next_addr (setValue g v w) = next_addr w"
  "faulted (setValue g v w) = faulted w"
  by (simp_all add: setValue_def)

lemma setText_sel [simp]:
  "bars (ui (setText l s w)) = bars (ui w)"
  "texts (ui (setText l s w)) = (texts (ui w))(l := s)"
  "calls (setText l s w) = calls w @ [SetText l]"
  "heap (setText l s w) = heap w"
  "next_addr (setText l s w) = next_addr w"
  "faulted (setText l s w) = faulted w"
  by (simp_all add: setText_def)

subsection \<open>What the thirteen writes leave behind\<close>

lemma bars_update_widgets:
  "bars (ui (update_widgets obj w)) g =
     (case g of
        barCPU1 \<Rightarrow> toDouble (at_key obj ''cpu_usage'')
      | barGPU \<Rightarrow> toDouble (at_key obj ''gpu_usage'')
      | barNPU1 \<Rightarrow> toDouble (at_key obj ''npu_usage'')
      | barRGA1 \<Rightarrow> toDouble (at_key obj ''rga_usage'')
      | barMem \<Rightarrow> toDouble (at_key obj ''memory_usage'')
      | barSwap \<Rightarrow> toDouble (at_key obj ''swap_usage'')
      | barTemp \<Rightarrow> fl (toDouble (at_key obj ''temperature'') / 1000)
      | barFan \<Rightarrow> real_of_int (toInt (at_key obj ''fan_state'')))"
  by (cases g) (simp_all add: update_widgets_def Let_def)

lemma texts_update_widgets:
  "texts (ui (update_widgets obj w)) l =
     (case l of
        freqCPU1 \<Rightarrow> number_f (fl (toDouble (at_key obj ''cpu_freq'') / 1000000)) 2 @ '' GHz''
      | freqGPU \<Rightarrow> number_f (fl (toDouble (at_key obj ''gpu_freq'') / 1000000)) 2 @ '' GHz''
      | freqNPU1 \<Rightarrow> number_f (fl (toDouble (at_key obj ''npu_freq'') / 1000000)) 2 @ '' GHz''
      | freqRGA1 \<Rightarrow> number_f (fl (toDouble (at_key obj ''rga_aclk_freq'') / 1000000)) 2 @ '' GHz''
      | freqTemp \<Rightarrow>
          number_f (fl (toDouble (at_key obj ''temperature'') / 1000)) 1
            @ [CHR '' '', CHR 0xB0, CHR ''C''])"
  by (cases l) (simp_all add: update_widgets_def Let_def)

lemma calls_update_widgets:
  "calls (update_widgets obj w) =
     calls w @ [SetValue barCPU1, SetText freqCPU1, SetValue barGPU, SetText freqGPU,
                SetValue barNPU1, SetText freqNPU1, SetValue barRGA1, SetText freqRGA1,
                SetValue barMem, SetValue barSwap, SetValue barTemp, SetText freqTemp,
                SetValue barFan]"
  by (simp add: update_widgets_def Let_def)

lemma memory_update_widgets:
  "heap (update_widgets obj w) = heap w"
  "next_addr (update_widgets obj w) = next_addr w"
  "faulted (update_widgets obj w) = faulted w"
  by (simp_all add: update_widgets_def Let_def)

lemma ui_update_widgets_any: "ui (update_widgets obj w) = ui (update_widgets obj w')"
proof (rule Dialog.equality)
  show "bars (ui (update_widgets obj w)) = bars (ui (update_widgets obj w'))"
    by (rule ext) (simp only: bars_update_widgets)
  show "texts (ui (update_widgets obj w)) = texts (ui (update_widgets obj w'))"
    by (rule ext) (simp only: texts_update_widgets)
qed simp

subsection \<open>The cycle with and without a payload\<close>

lemma cycle_None: "updateDataFromRust fromJson None w = w"
  by (simp add: updateDataFromRust_def get_system_metrics_json_def)

lemma cycle_Some:
  "updateDataFromRust fromJson (Some s) w =
     update_widgets (object (fromJson s))
       (w\<lparr>next_addr := Suc (next_addr w), heap := (heap w)(next_addr w := None),
          calls := calls w @ [FreeString (next_addr w)]\<rparr>)"
  by (simp add: updateDataFromRust_def get_system_metrics_json_def fromUtf8_def free_string_def)

lemma ui_cycle_Some:
  "ui (updateDataFromRust fromJson (Some s) w) = ui (update_widgets (object (fromJson s)) w)"
  unfolding cycle_Some by (rule ui_update_widgets_any)

text \<open>The fault flag is not idle: a second release of a buffer, or a read after it, raises it.\<close>

lemma second_release_faults: "faulted (free_string p (free_string p w))"
  by (simp add: free_string_def split: option.split)

lemma read_after_release_faults: "faulted (snd (fromUtf8 p (free_string p w)))"
  by (simp add: free_string_def fromUtf8_def split: option.split)

subsection \<open>Absent keys and values that are no numbers\<close>

lemma toDouble_absent: "map_of obj k = None \<Longrightarrow> toDouble (at_key obj k) = 0"
  by (simp add: at_key_def toDouble_def)

lemma toInt_absent: "map_of obj k = None \<Longrightarrow> toInt (at_key obj k) = 0"
  by (simp add: at_key_def toInt_def)

lemma toDouble_present: "map_of obj k = Some (JDouble v) \<Longrightarrow> toDouble (at_key obj k) = v"
  by (simp add: at_key_def toDouble_def)

subsection \<open>The digits of a formatted number\<close>

lemma digit_char_is_digit: "digit_char d \<in> set ''0123456789''"
  unfolding digit_char_def by (rule nth_mem) simp

lemma set_digits: "set (digits n) \<subseteq> set ''0123456789''"
proof (induction n rule: digits.induct)
  case (1 n)
  show ?case
  proof (cases "n < 10")
    case True
    then show ?thesis
      using digit_char_is_digit [of n] by (subst digits.simps) simp
  next
    case False
    then show ?thesis
      using 1 digit_char_is_digit [of "n mod 10"] by (subst digits.simps) simp
  qed
qed

lemma length_digits_le: "n < 10 ^ k \<Longrightarrow> 0 < k \<Longrightarrow> length (digits n) \<le> k"
proof (induction n arbitrary: k rule: digits.induct)
  case (1 n)
  show ?case
  proof (cases "n < 10")
    case True
    then show ?thesis using "1.prems" by (subst digits.simps) simp
  next
    case False
    obtain j where k: "k = Suc j" using "1.prems" by (cases k) auto
    have "j \<noteq> 0" using False "1.prems" k by (cases j) auto
    moreover have "n div 10 < 10 ^ j"
      using "1.prems" k by (simp add: less_mult_imp_div_less mult.commute)
    ultimately have "length (digits (n div 10)) \<le> j" using "1.IH" [OF False] by simp
    then show ?thesis using False k by (subst digits.simps) simp
  qed
qed

lemma length_pad: "length ds \<le> prec \<Longrightarrow> length (pad prec ds) = prec"
  by (simp add: pad_def)

lemma set_pad: "set ds \<subseteq> set ''0123456789'' \<Longrightarrow> set (pad prec ds) \<subseteq> set ''0123456789''"
  by (auto simp: pad_def)

lemma number_f_decimals:
  assumes "0 < prec"
  shows "\<exists>ip fr. number_f d prec = ip @ ''.'' @ fr \<and> length fr = prec
           \<and> set fr \<subseteq> set ''0123456789'' \<and> CHR ''.'' \<notin> set ip"
proof -
  define n where "n = nat \<lfloor>\<bar>d\<bar> * 10 ^ prec + 1 / 2\<rfloor>"
  let ?ip = "(if d < 0 then ''-'' else []) @ digits (n div 10 ^ prec)"
  let ?fr = "pad prec (digits (n mod 10 ^ prec))"
  have "number_f d prec = ?ip @ ''.'' @ ?fr"
    using assms by (simp add: number_f_def Let_def n_def)
  moreover have "length ?fr = prec"
    using assms by (intro length_pad length_digits_le) simp_all
  moreover have "set ?fr \<subseteq> set ''0123456789''"
    by (intro set_pad set_digits)
  moreover have "CHR ''.'' \<notin> set ?ip"
    using set_digits [of "n div 10 ^ prec"] by auto
  ultimately show ?thesis by blast
qed

subsection \<open>Reading a formatted number back\<close>

lemma digit_val_nth: "i < 10 \<Longrightarrow> digit_val (''0123456789'' ! i) = i"
proof -
  assume "i < 10"
  then have "i \<in> {0, 1, 2, 3, 4, 5, 6, 7, 8, 9}" by auto
  then show ?thesis by (auto simp: digit_val_def)
qed

lemma digit_val_digit_char: "digit_val (digit_char d) = d mod 10"
  unfolding digit_char_def by (rule digit_val_nth) simp

lemma read_nat_snoc: "read_nat (xs @ [c]) = 10 * read_nat xs + digit_val c"
  by (simp add: read_nat_def)

lemma read_nat_digits: "read_nat (digits n) = n"
proof (induction n rule: digits.induct)
  case (1 n)
  show ?case
  proof (cases "n < 10")
    case True
    then have "digits n = [] @ [digit_char n]" by (subst digits.simps) simp
    then have "read_nat (digits n) = 10 * read_nat [] + digit_val (digit_char n)"
      by (simp only: read_nat_snoc)
    then show ?thesis using True by (simp add: digit_val_digit_char read_nat_def)
  next
    case False
    then have "digits n = digits (n div 10) @ [digit_char (n mod 10)]"
      by (subst digits.simps) simp
    then have "read_nat (digits n)
        = 10 * read_nat (digits (n div 10)) + digit_val (digit_char (n mod 10))"
      by (simp only: read_nat_snoc)
    then show ?thesis using 1 [OF False] by (simp add: digit_val_digit_char)
  qed
qed

lemma foldl_zeros:
  "foldl (\<lambda>a c. 10 * a + digit_val c) 0 (replicate k (CHR ''0'')) = 0"
  by (induction k) (simp_all add: digit_val_def)

lemma read_nat_pad: "read_nat (pad prec ds) = read_nat ds"
  by (simp add: pad_def read_nat_def foldl_zeros)

lemma no_point_no_sign: "CHR ''.'' \<notin> set (digits n)" "CHR ''-'' \<notin> set (digits n)"
  using set_digits [of n] by auto

lemma digits_nonempty: "digits n \<noteq> []"
  by (subst digits.simps) simp

lemma hd_digits: "hd (digits n @ rest) \<noteq> CHR ''-''"
proof -
  have "hd (digits n @ rest) = hd (digits n)" using digits_nonempty by simp
  moreover have "hd (digits n) \<in> set (digits n)" using digits_nonempty by simp
  ultimately show ?thesis using no_point_no_sign(2) [of n] by metis
qed

lemma read_unsigned:
  assumes "length fr = prec"
  shows "real (read_nat (takeWhile (\<lambda>c. c \<noteq> CHR ''.'') (digits i @ ''.'' @ fr)))
          + real (read_nat
                (drop (Suc (length (takeWhile (\<lambda>c. c \<noteq> CHR ''.'') (digits i @ ''.'' @ fr))))
                   (digits i @ ''.'' @ fr)))
            / 10 ^ length
                (drop (Suc (length (takeWhile (\<lambda>c. c \<noteq> CHR ''.'') (digits i @ ''.'' @ fr))))
                   (digits i @ ''.'' @ fr))
         = real i + real (read_nat fr) / 10 ^ prec"
proof -
  have "\<forall>c\<in>set (digits i). c \<noteq> CHR ''.''"
    using no_point_no_sign(1) [of i] by auto
  then have "takeWhile (\<lambda>c. c \<noteq> CHR ''.'') (digits i @ ''.'' @ fr) = digits i"
    by (simp add: takeWhile_append2)
  then show ?thesis using assms by (simp add: read_nat_digits)
qed

lemma read_fixed_number_f:
  assumes "0 < prec"
  shows "read_fixed (number_f d prec) =
           (if d < 0 then - 1 else 1) * (real (nat \<lfloor>\<bar>d\<bar> * 10 ^ prec + 1 / 2\<rfloor>) / 10 ^ prec)"
proof -
  define n where "n = nat \<lfloor>\<bar>d\<bar> * 10 ^ prec + 1 / 2\<rfloor>"
  define fr where "fr = pad prec (digits (n mod 10 ^ prec))"
  define body where "body = digits (n div 10 ^ prec) @ ''.'' @ fr"
  have len: "length fr = prec"
    unfolding fr_def using assms by (intro length_pad length_digits_le) simp_all
  have fr: "read_nat fr = n mod 10 ^ prec"
    by (simp add: fr_def read_nat_pad read_nat_digits)
  have nf: "number_f d prec = (if d < 0 then ''-'' else []) @ body"
    using assms by (simp add: number_f_def Let_def n_def fr_def body_def)
  have val: "real (n div 10 ^ prec) + real (n mod 10 ^ prec) / 10 ^ prec = real n / 10 ^ prec"
  proof -
    define P :: nat where "P = 10 ^ prec"
    have P: "real P = 10 ^ prec" by (simp add: P_def)
    have "real (n div P * P + n mod P) = real (n div P) * real P + real (n mod P)"
      by (simp only: of_nat_add of_nat_mult)
    moreover have "n div P * P + n mod P = n"
      by (rule div_mult_mod_eq)
    ultimately have "real n = real (n div P) * real P + real (n mod P)"
      by (simp only:)
    then have "real n / real P = real (n div P) + real (n mod P) / real P"
      by (simp add: add_divide_distrib P)
    then show ?thesis unfolding P by (simp add: P_def)
  qed
  have unsigned: "read_fixed body = real n / 10 ^ prec"
  proof -
    have "\<not> (body \<noteq> [] \<and> hd body = CHR ''-'')"
      unfolding body_def using hd_digits by blast
    then show ?thesis
      unfolding read_fixed_def Let_def
      using read_unsigned [OF len, of "n div 10 ^ prec"] fr val
      by (simp add: body_def)
  qed
  show ?thesis
  proof (cases "d < 0")
    case False
    then show ?thesis using nf unsigned by (simp add: n_def)
  next
    case True
    have "read_fixed (''-'' @ body) = - (real n / 10 ^ prec)"
      unfolding read_fixed_def Let_def
      using read_unsigned [OF len, of "n div 10 ^ prec"] fr val
      by (simp add: body_def)
    then show ?thesis using nf True by (simp add: n_def)
  qed
qed

lemma number_f_close:
  assumes "0 < prec"
  shows "\<bar>read_fixed (number_f d prec) - d\<bar> \<le> 1 / (2 * 10 ^ prec)"
proof -
  define y where "y = \<bar>d\<bar> * 10 ^ prec"
  define n where "n = nat \<lfloor>y + 1 / 2\<rfloor>"
  have y: "0 \<le> y" by (simp add: y_def)
  then have "0 \<le> \<lfloor>y + 1 / 2\<rfloor>" by simp
  then have n: "real n = real_of_int \<lfloor>y + 1 / 2\<rfloor>" by (simp add: n_def)
  have "\<bar>real n - y\<bar> \<le> 1 / 2" unfolding n by linarith
  then have "\<bar>real n - y\<bar> / 10 ^ prec \<le> (1 / 2) / 10 ^ prec"
    by (intro divide_right_mono) simp_all
  moreover have "\<bar>real n - y\<bar> / 10 ^ prec = \<bar>real n / 10 ^ prec - \<bar>d\<bar>\<bar>"
  proof -
    have "real n / 10 ^ prec - \<bar>d\<bar> = (real n - y) / 10 ^ prec"
      by (simp add: y_def diff_divide_distrib)
    then show ?thesis by (simp add: abs_divide)
  qed
  ultimately have close: "\<bar>real n / 10 ^ prec - \<bar>d\<bar>\<bar> \<le> 1 / (2 * 10 ^ prec)" by simp
  have rf: "read_fixed (number_f d prec) = (if d < 0 then - 1 else 1) * (real n / 10 ^ prec)"
    using read_fixed_number_f [OF assms, of d] by (simp add: n_def y_def)
  show ?thesis
  proof (cases "d < 0")
    case True
    then have "read_fixed (number_f d prec) - d = - (real n / 10 ^ prec - \<bar>d\<bar>)"
      using rf by simp
    then show ?thesis using close by (simp only: abs_minus_cancel)
  next
    case False
    then have "read_fixed (number_f d prec) - d = real n / 10 ^ prec - \<bar>d\<bar>"
      using rf by simp
    then show ?thesis using close by simp
  qed
qed

subsection \<open>The error of a division of doubles\<close>

lemma ilog_below_two: "x < 2 \<Longrightarrow> ilog k x = 0"
proof (induction k)
  case 0
  show ?case by simp
next
  case (Suc k)
  have "(2::real) ^ 1 \<le> 2 ^ (2 ^ k)"
    by (rule power_increasing) simp_all
  with Suc show ?case by simp
qed

lemma ilog_bounds:
  "1 \<le> x \<Longrightarrow> x < 2 ^ (2 ^ k) \<Longrightarrow> 2 ^ ilog k x \<le> x \<and> x < 2 * 2 ^ ilog k x"
proof (induction k arbitrary: x)
  case 0
  then show ?case by simp
next
  case (Suc k)
  let ?P = "(2::real) ^ (2 ^ k)"
  have P: "0 < ?P" by simp
  have PP: "(2::real) ^ (2 ^ Suc k) = ?P * ?P"
    by (simp add: power_add [symmetric] mult_2)
  show ?case
  proof (cases "?P \<le> x")
    case True
    have 1: "1 \<le> x / ?P" using True P by (simp add: le_divide_eq)
    have 2: "x / ?P < ?P" using Suc.prems(2) P unfolding PP by (simp add: divide_less_eq)
    from Suc.IH [OF 1 2] have lo: "2 ^ ilog k (x / ?P) \<le> x / ?P"
      and hi: "x / ?P < 2 * 2 ^ ilog k (x / ?P)" by simp_all
    have "?P * 2 ^ ilog k (x / ?P) \<le> x"
      using lo P by (simp add: le_divide_eq mult.commute)
    moreover have "x < 2 * (?P * 2 ^ ilog k (x / ?P))"
      using hi P by (simp add: divide_less_eq mult.commute mult.left_commute)
    ultimately show ?thesis using True by (simp add: power_add)
  next
    case False
    then have "x < ?P" by simp
    from Suc.IH [OF Suc.prems(1) this] False show ?thesis by simp
  qed
qed

lemma rne_error: "\<bar>real_of_int (rne y) - y\<bar> \<le> 1 / 2"
  unfolding rne_def Let_def by (auto simp: abs_le_iff)

lemma fl_error:
  assumes "\<bar>x\<bar> < 2 ^ 1024"
  shows "\<bar>fl x - x\<bar> \<le> max (\<bar>x\<bar> / 2 ^ 53) (1 / 2 ^ 1075)"
proof -
  define c :: real where "c = 2 ^ 1074"
  define b where "b = \<bar>x\<bar> * c"
  define k where "k = ilog 12 b"
  define u :: real where "u = 2 ^ (k - 52)"
  define M where "M = real_of_int (rne (b / u))"
  have c: "0 < c" by (simp add: c_def)
  have u: "0 < u" by (simp add: u_def)
  have fl: "fl x = sgn x * (M * u / c)"
    unfolding fl_def Let_def M_def u_def k_def b_def c_def by (rule refl)
  have x: "x = sgn x * (b / c)"
    using c by (simp add: b_def sgn_mult_abs)
  have "\<bar>M - b / u\<bar> \<le> 1 / 2" unfolding M_def by (rule rne_error)
  then have "\<bar>M - b / u\<bar> * u \<le> 1 / 2 * u"
    using u by (intro mult_right_mono) simp_all
  moreover have "M * u - b = (M - b / u) * u"
    using u by (simp add: left_diff_distrib)
  then have "\<bar>M * u - b\<bar> = \<bar>M - b / u\<bar> * u"
    using u by (simp add: abs_mult)
  ultimately have Mu: "\<bar>M * u - b\<bar> \<le> u / 2"
    by simp
  have "fl x - x = sgn x * (M * u / c) - sgn x * (b / c)"
    by (simp only: x [symmetric] fl)
  also have "\<dots> = sgn x * ((M * u - b) / c)"
    by (simp add: right_diff_distrib diff_divide_distrib)
  finally have "\<bar>fl x - x\<bar> = \<bar>sgn x\<bar> * (\<bar>M * u - b\<bar> / c)"
    using c by (simp add: abs_mult)
  also have "\<dots> \<le> 1 * (\<bar>M * u - b\<bar> / c)"
    using c by (intro mult_right_mono) (simp_all add: abs_sgn_eq)
  also have "\<dots> = \<bar>M * u - b\<bar> / c"
    by simp
  also have "\<dots> \<le> (u / 2) / c"
    using Mu c by (intro divide_right_mono) simp_all
  finally have err: "\<bar>fl x - x\<bar> \<le> (u / 2) / c" .
  show ?thesis
  proof (cases "52 \<le> k")
    case False
    then have "u = 1" by (simp add: u_def)
    moreover have "(1 / 2) / c = 1 / 2 ^ 1075" by (simp add: c_def)
    ultimately have "\<bar>fl x - x\<bar> \<le> 1 / 2 ^ 1075" using err by simp
    then show ?thesis by (rule max.coboundedI2)
  next
    case True
    then have kpos: "k \<noteq> 0" by simp
    have b1: "1 \<le> b"
    proof (rule ccontr)
      assume "\<not> 1 \<le> b"
      then have "b < 2" by simp
      then have "k = 0" unfolding k_def by (rule ilog_below_two)
      with kpos show False by simp
    qed
    have "b < 2 ^ 1024 * c"
      unfolding b_def using assms c by (intro mult_strict_right_mono)
    also have "\<dots> \<le> (2::real) ^ (2 ^ 12)"
      by (simp add: c_def)
    finally have "b < 2 ^ (2 ^ 12)" .
    from ilog_bounds [OF b1 this] have "2 ^ k \<le> b" by (simp add: k_def)
    moreover have "k = (k - 52) + 52"
      using True by simp
    then have "(2::real) ^ k = 2 ^ ((k - 52) + 52)"
      by (rule arg_cong)
    then have "(2::real) ^ k = u * 2 ^ 52"
      unfolding u_def by (simp only: power_add)
    ultimately have "u * 2 ^ 52 \<le> b" by simp
    then have "u \<le> b / 2 ^ 52" by (simp add: le_divide_eq)
    then have "(u / 2) / c \<le> (b / 2 ^ 52 / 2) / c"
      using c by (intro divide_right_mono) simp_all
    also have "\<dots> = \<bar>x\<bar> / 2 ^ 53" using c by (simp add: b_def)
    finally have "\<bar>fl x - x\<bar> \<le> \<bar>x\<bar> / 2 ^ 53" using err by simp
    then show ?thesis by (rule max.coboundedI1)
  qed
qed

subsection \<open>Evaluating the model\<close>

lemma ilog_numeral:
  "ilog (numeral n) x =
     (if 2 ^ (2 ^ pred_numeral n) \<le> x
      then 2 ^ pred_numeral n + ilog (pred_numeral n) (x / 2 ^ (2 ^ pred_numeral n))
      else ilog (pred_numeral n) x)"
  by (simp add: numeral_eq_Suc)

lemma ilog_Suc0: "ilog (Suc 0) x = (if 2 \<le> x then 1 else 0)"
  by simp

lemmas ilog_eval = ilog_numeral ilog_Suc0 ilog.simps(1)

lemma fl_zero: "fl 0 = 0"
  by (simp add: fl_def)

lemma fl_values:
  "fl 2400 = 2400"
  "fl 1800 = 1800"
  "fl (91 / 2) = 91 / 2"
  "fl (12 / 5) = 5404319552844595 / 2251799813685248"
  "fl (903 / 20) = 6354297599243059 / 140737488355328"
  "fl (201 / 200) = 1131529406376837 / 1125899906842624"
  unfolding fl_def Let_def
       apply (simp_all only: abs_divide abs_numeral)
       apply (simp_all add: ilog_eval del: ilog.simps)
       apply (simp_all add: rne_def Let_def)
  done

lemma digits_small: "n < 10 \<Longrightarrow> digits n = [digit_char n]"
  by (subst digits.simps) simp

lemma digits_large: "\<not> n < 10 \<Longrightarrow> digits n = digits (n div 10) @ [digit_char (n mod 10)]"
  by (subst digits.simps) simp

lemma number_f_values:
  "number_f 0 2 = ''0.00''"
  "number_f 0 (Suc 0) = ''0.0''"
  "number_f 2400 2 = ''2400.00''"
  "number_f 1800 2 = ''1800.00''"
  "number_f (91 / 2) (Suc 0) = ''45.5''"
  "number_f (5404319552844595 / 2251799813685248) 2 = ''2.40''"
  "number_f (6354297599243059 / 140737488355328) (Suc 0) = ''45.1''"
  "number_f (1131529406376837 / 1125899906842624) 2 = ''1.00''"
  by (simp_all add: number_f_def Let_def digits_small digits_large pad_def digit_char_def)

lemma toInt_values:
  "toInt (JDouble 2) = 2"
  "toInt (JDouble (27 / 10)) = 0"
  by (simp_all add: toInt_def)

lemma at_key_simps:
  "at_key ((k, v) # obj) k' = (if k = k' then v else at_key obj k')"
  "at_key [] k' = JUndefined"
  by (simp_all add: at_key_def)

lemma toDouble_simps:
  "toDouble (JDouble d) = d"
  "toDouble JUndefined = 0"
  by (simp_all add: toDouble_def)

lemma toInt_JUndefined: "toInt JUndefined = 0"
  by (simp add: toInt_def)

lemma sample_docs:
  "fromJson_sample payload_scenario =
     ObjectDocument [(''cpu_usage'', JDouble 37.2), (''cpu_freq'', JDouble 1800000000),
                     (''temperature'', JDouble 52300), (''fan_state'', JDouble 2)]"
  "fromJson_sample payload_freq = ObjectDocument [(''cpu_freq'', JDouble 2400000000)]"
  "fromJson_sample payload_fan = ObjectDocument [(''fan_state'', JDouble 2.7)]"
  "fromJson_sample payload_empty = ObjectDocument []"
  "fromJson_sample payload_malformed = NullDocument"
  "fromJson_sample [] = NullDocument"
  by (simp_all add: fromJson_sample_def payload_scenario_def payload_freq_def payload_fan_def
        payload_empty_def payload_malformed_def quoted_def)

lemma run_append: "run fromJson (xs @ ys) w = run fromJson ys (run fromJson xs w)"
  by (induction xs arbitrary: w) simp_all

lemma releases_append: "releases (xs @ ys) = releases xs @ releases ys"
  by (induction xs rule: releases.induct) simp_all

lemma writes_append: "writes (xs @ ys) = writes xs @ writes ys"
  by (induction xs rule: writes.induct) simp_all

subsection \<open>Absent keys in the display\<close>

lemma bars_absent:
  "map_of obj (gauge_key g) = None \<Longrightarrow> bars (ui (update_widgets obj w)) g = 0"
  by (cases g) (simp_all add: bars_update_widgets gauge_key_def toDouble_absent toInt_absent fl_zero)

lemma texts_absent:
  "map_of obj (label_key l) = None \<Longrightarrow> texts (ui (update_widgets obj w)) l = texts zero_display l"
  by (cases l)
    (simp_all add: texts_update_widgets label_key_def toDouble_absent zero_display_def
      number_f_values fl_values fl_zero)

lemma bars_usage_present:
  "g \<noteq> barTemp \<Longrightarrow> g \<noteq> barFan \<Longrightarrow> map_of obj (gauge_key g) = Some (JDouble v)
     \<Longrightarrow> bars (ui (update_widgets obj w)) g = v"
  by (cases g) (simp_all add: bars_update_widgets gauge_key_def toDouble_present)

lemma ui_empty_object: "ui (update_widgets [] w) = zero_display"
proof (rule Dialog.equality)
  show "bars (ui (update_widgets [] w)) = bars zero_display"
  proof (rule ext)
    fix g
    show "bars (ui (update_widgets [] w)) g = bars zero_display g"
      using bars_absent [of "[]" g w] by (simp add: zero_display_def)
  qed
  show "texts (ui (update_widgets [] w)) = texts zero_display"
  proof (rule ext)
    fix l
    show "texts (ui (update_widgets [] w)) l = texts zero_display l"
      using texts_absent [of "[]" l w] by simp
  qed
qed simp

lemma scenario_cpu:
  "bars (ui (run fromJson_sample [Some payload_scenario] Dialog_init)) barCPU1 = 37.2"
  by (simp add: ui_cycle_Some sample_docs object_def bars_update_widgets at_key_simps
        toDouble_simps)

subsection \<open>The calls of one cycle\<close>

lemma written_once:
  "count_list [FreeString p, SetValue barCPU1, SetText freqCPU1, SetValue barGPU, SetText freqGPU,
               SetValue barNPU1, SetText freqNPU1, SetValue barRGA1, SetText freqRGA1,
               SetValue barMem, SetValue barSwap, SetValue barTemp, SetText freqTemp,
               SetValue barFan] (SetValue g) = 1"
  "count_list [FreeString p, SetValue barCPU1, SetText freqCPU1, SetValue barGPU, SetText freqGPU,
               SetValue barNPU1, SetText freqNPU1, SetValue barRGA1, SetText freqRGA1,
               SetValue barMem, SetValue barSwap, SetValue barTemp, SetText freqTemp,
               SetValue barFan] (SetText l) = 1"
  by (cases g; simp) (cases l; simp)

lemma writes_cycle_Some:
  "writes (calls (updateDataFromRust fromJson (Some s) w)) =
     writes (calls w) @
       [SetValue barCPU1, SetText freqCPU1, SetValue barGPU, SetText freqGPU,
        SetValue barNPU1, SetText freqNPU1, SetValue barRGA1, SetText freqRGA1,
        SetValue barMem, SetValue barSwap, SetValue barTemp, SetText freqTemp,
        SetValue barFan]"
  by (simp add: cycle_Some calls_update_widgets writes_append)

section \<open>The claims\<close>

subsection \<open>C1: the frequency examples\<close>

text \<open>
  C1, as stated: a frequency of 2,400,000,000 is displayed as "2.40 GHz". It is not: the
  payload whose \<open>cpu_freq\<close> is 2400000000 leaves another text in the label.
\<close>

theorem freq_2400000000_counterexample:
  "texts (ui (updateDataFromRust fromJson_sample (Some payload_freq) Dialog_init)) freqCPU1
     \<noteq> ''2.40 GHz''"
  by (simp add: ui_cycle_Some sample_docs object_def texts_update_widgets at_key_simps
        toDouble_simps number_f_values fl_values fl_zero)

text \<open>
  C1, amended: the transform divides by 1,000,000, so an input of 2,400,000,000 is displayed
  as "2400.00 GHz"; it is the input 2,400,000 that is displayed as "2.40 GHz"; the input 0 is
  displayed as "0.00 GHz".
\<close>

theorem freq_label_examples:
  "texts (ui (update_widgets [(''cpu_freq'', JDouble 2400000000)] w)) freqCPU1 = ''2400.00 GHz''
   \<and> texts (ui (update_widgets [(''cpu_freq'', JDouble 2400000)] w)) freqCPU1 = ''2.40 GHz''
   \<and> texts (ui (update_widgets [(''cpu_freq'', JDouble 0)] w)) freqCPU1 = ''0.00 GHz''"
  by (simp add: texts_update_widgets at_key_simps toDouble_simps number_f_values fl_values fl_zero)

subsection \<open>C4: a cycle without a payload\<close>

text \<open>
  C4, as stated: a cycle in which the provider returns no payload, be it the null pointer
  or an empty response, leaves the display as it was. For the empty response it does not:
  line 26 tests the pointer only, so the empty string is a payload like any other; it is no
  JSON document, and after the scenario snapshot it changes the display.
\<close>

theorem empty_payload_counterexample:
  "fromJson_sample [] = NullDocument
   \<and> ui (updateDataFromRust fromJson_sample (Some [])
            (run fromJson_sample [Some payload_scenario] Dialog_init))
       \<noteq> ui (run fromJson_sample [Some payload_scenario] Dialog_init)"
proof -
  have "bars (ui (updateDataFromRust fromJson_sample (Some [])
                 (run fromJson_sample [Some payload_scenario] Dialog_init))) barCPU1 = 0"
    by (simp add: ui_cycle_Some sample_docs object_def bars_update_widgets at_key_simps
          toDouble_simps)
  then have "bars (ui (updateDataFromRust fromJson_sample (Some [])
                 (run fromJson_sample [Some payload_scenario] Dialog_init))) barCPU1
       \<noteq> bars (ui (run fromJson_sample [Some payload_scenario] Dialog_init)) barCPU1"
    unfolding scenario_cpu by simp
  then show ?thesis
    using sample_docs(6) by metis
qed

text \<open>
  C4, amended: when the provider returns the null pointer, the cycle changes nothing at all,
  so the display keeps every value; and the timer goes on: the cycles after it run as if it
  had not happened. An empty string that is not the null pointer is not such a cycle: its
  buffer is released, and since the empty text is no JSON document, every entry is written
  with the transform of 0.
\<close>

theorem null_payload_keeps_display:
  "updateDataFromRust fromJson None w = w
   \<and> ui (updateDataFromRust fromJson None w) = ui w
   \<and> run fromJson (before @ None # rest) w = run fromJson (before @ rest) w
   \<and> (fromJson [] = NullDocument \<longrightarrow>
        ui (updateDataFromRust fromJson (Some []) w) = zero_display
      \<and> releases (calls (updateDataFromRust fromJson (Some []) w))
          = releases (calls w) @ [next_addr w])"
  by (simp add: cycle_None run_append ui_cycle_Some object_def ui_empty_object cycle_Some
        calls_update_widgets releases_append)

theorem null_payload_keeps_display_witness:
  "fromJson_sample [] = NullDocument
   \<and> ui (updateDataFromRust fromJson_sample (Some []) Dialog_init) = zero_display
   \<and> releases (calls (updateDataFromRust fromJson_sample (Some []) Dialog_init)) = [0]
   \<and> updateDataFromRust fromJson_sample None Dialog_init = Dialog_init"
  using null_payload_keeps_display [of fromJson_sample Dialog_init "[]" "[]"] sample_docs(6)
  by (simp add: Dialog_init_def)

subsection \<open>C5: the provider's buffer\<close>

text \<open>
  C5: in every cycle the buffer the provider allocated is released exactly once. Without a
  buffer nothing is released and the heap is as before. With a buffer, its address is the
  one release of the cycle, the buffer is gone from the heap afterwards (no leak), every
  other buffer is as before, and no fault (a second release, a read after the release) has
  been raised.
\<close>

theorem buffer_released_exactly_once:
  "(provided = None \<longrightarrow>
      releases (calls (updateDataFromRust fromJson provided w)) = releases (calls w)
      \<and> heap (updateDataFromRust fromJson provided w) = heap w
      \<and> faulted (updateDataFromRust fromJson provided w) = faulted w)
   \<and> (\<forall>s. provided = Some s \<longrightarrow>
        fst (get_system_metrics_json provided w) = Some (next_addr w)
      \<and> releases (calls (updateDataFromRust fromJson provided w))
            = releases (calls w) @ [next_addr w]
      \<and> heap (updateDataFromRust fromJson provided w) (next_addr w) = None
      \<and> (\<forall>a. a \<noteq> next_addr w \<longrightarrow> heap (updateDataFromRust fromJson provided w) a = heap w a)
      \<and> faulted (updateDataFromRust fromJson provided w) = faulted w)"
  by (auto simp: cycle_None cycle_Some memory_update_widgets calls_update_widgets
        releases_append get_system_metrics_json_def)

theorem buffer_released_exactly_once_witness:
  "releases (calls (updateDataFromRust fromJson_sample (Some payload_scenario) Dialog_init)) = [0]
   \<and> heap (updateDataFromRust fromJson_sample (Some payload_scenario) Dialog_init) 0 = None
   \<and> heap (updateDataFromRust fromJson_sample (Some payload_scenario) Dialog_init) 1 = None
   \<and> \<not> faulted (updateDataFromRust fromJson_sample (Some payload_scenario) Dialog_init)
   \<and> releases (calls (updateDataFromRust fromJson_sample None Dialog_init)) = []"
  using buffer_released_exactly_once [of "Some payload_scenario" fromJson_sample Dialog_init]
    buffer_released_exactly_once [of None fromJson_sample Dialog_init]
  by (simp add: Dialog_init_def)

subsection \<open>C9: writing the same snapshot twice\<close>

text \<open>
  C9: the thirteen writes of a snapshot are idempotent on the display: writing the snapshot
  a second time leaves the display of the first time. The same holds for the whole cycle
  run twice on one answer of the provider.
\<close>

theorem transforms_idempotent:
  "ui (update_widgets obj (update_widgets obj w)) = ui (update_widgets obj w)
   \<and> ui (updateDataFromRust fromJson provided (updateDataFromRust fromJson provided w))
       = ui (updateDataFromRust fromJson provided w)"
proof -
  have a: "ui (update_widgets obj (update_widgets obj w)) = ui (update_widgets obj w)"
    by (rule ui_update_widgets_any)
  have b: "ui (updateDataFromRust fromJson provided (updateDataFromRust fromJson provided w))
             = ui (updateDataFromRust fromJson provided w)"
  proof (cases provided)
    case None
    then show ?thesis by (simp add: cycle_None)
  next
    case (Some s)
    have "ui (updateDataFromRust fromJson (Some s) (updateDataFromRust fromJson (Some s) w))
            = ui (update_widgets (object (fromJson s)) (updateDataFromRust fromJson (Some s) w))"
      by (rule ui_cycle_Some)
    also have "\<dots> = ui (update_widgets (object (fromJson s)) w)"
      by (rule ui_update_widgets_any)
    also have "\<dots> = ui (updateDataFromRust fromJson (Some s) w)"
      by (rule ui_cycle_Some [symmetric])
    finally show ?thesis using Some by simp
  qed
  from a b show ?thesis by (rule conjI)
qed

subsection \<open>C2: a field absent from a decoded snapshot\<close>

text \<open>
  C2, as stated: an entry whose field is absent from a snapshot that decodes keeps its value.
  It does not: after the scenario snapshot has set the CPU gauge to 37.2, the empty object
  (which decodes, and has no \<open>cpu_usage\<close>) changes that gauge.
\<close>

theorem absent_field_unchanged_counterexample:
  "fromJson_sample payload_empty = ObjectDocument []
   \<and> bars (ui (updateDataFromRust fromJson_sample (Some payload_empty)
                 (run fromJson_sample [Some payload_scenario] Dialog_init))) barCPU1
       \<noteq> bars (ui (run fromJson_sample [Some payload_scenario] Dialog_init)) barCPU1"
  unfolding scenario_cpu
  by (simp add: ui_cycle_Some sample_docs object_def bars_update_widgets at_key_simps
        toDouble_simps)

text \<open>
  C2, amended: in a cycle whose snapshot decodes, an entry whose field is absent is written
  with the transform of the value 0, whatever it held before: a gauge becomes 0, a frequency
  label "0.00 GHz", the temperature label "0.0" with its unit. Every entry is written; a
  usage field that is present as a number is written as it is.
\<close>

theorem absent_field_written_as_zero:
  assumes "fromJson s = ObjectDocument obj"
  shows "(\<forall>g. map_of obj (gauge_key g) = None \<longrightarrow>
            bars (ui (updateDataFromRust fromJson (Some s) w)) g = 0)
       \<and> (\<forall>l. map_of obj (label_key l) = None \<longrightarrow>
            texts (ui (updateDataFromRust fromJson (Some s) w)) l = texts zero_display l)
       \<and> (\<forall>g v. g \<noteq> barTemp \<and> g \<noteq> barFan \<and> map_of obj (gauge_key g) = Some (JDouble v) \<longrightarrow>
            bars (ui (updateDataFromRust fromJson (Some s) w)) g = v)
       \<and> writes (calls (updateDataFromRust fromJson (Some s) w)) =
           writes (calls w) @
           [SetValue barCPU1, SetText freqCPU1, SetValue barGPU, SetText freqGPU,
            SetValue barNPU1, SetText freqNPU1, SetValue barRGA1, SetText freqRGA1,
            SetValue barMem, SetValue barSwap, SetValue barTemp, SetText freqTemp,
            SetValue barFan]"
  using assms
  by (simp add: ui_cycle_Some object_def bars_absent texts_absent bars_usage_present
        writes_cycle_Some)

theorem absent_field_written_as_zero_witness:
  "bars (ui (updateDataFromRust fromJson_sample (Some payload_scenario) Dialog_init)) barGPU = 0
   \<and> texts (ui (updateDataFromRust fromJson_sample (Some payload_scenario) Dialog_init)) freqGPU
       = ''0.00 GHz''
   \<and> bars (ui (updateDataFromRust fromJson_sample (Some payload_scenario) Dialog_init)) barCPU1
       = 37.2"
proof -
  let ?obj = "[(''cpu_usage'', JDouble 37.2), (''cpu_freq'', JDouble 1800000000),
               (''temperature'', JDouble 52300), (''fan_state'', JDouble 2)]"
  note th = absent_field_written_as_zero
      [where fromJson = fromJson_sample and s = payload_scenario and w = Dialog_init,
       OF sample_docs(1)]
  have "map_of ?obj (gauge_key barGPU) = None"
    by (simp add: gauge_key_def)
  moreover have "map_of ?obj (label_key freqGPU) = None"
    by (simp add: label_key_def)
  moreover have "barCPU1 \<noteq> barTemp \<and> barCPU1 \<noteq> barFan
      \<and> map_of ?obj (gauge_key barCPU1) = Some (JDouble 37.2)"
    by (simp add: gauge_key_def)
  moreover have "texts zero_display freqGPU = ''0.00 GHz''"
    by (simp add: zero_display_def)
  ultimately show ?thesis
    using th by metis
qed

subsection \<open>C3: a payload that is no JSON document\<close>

text \<open>
  C3, as stated: a payload that cannot be parsed leaves the display as it was. It does not:
  after the scenario snapshot, a malformed payload changes the display.
\<close>

theorem malformed_payload_counterexample:
  "fromJson_sample payload_malformed = NullDocument
   \<and> ui (updateDataFromRust fromJson_sample (Some payload_malformed)
            (run fromJson_sample [Some payload_scenario] Dialog_init))
       \<noteq> ui (run fromJson_sample [Some payload_scenario] Dialog_init)"
proof -
  have "bars (ui (updateDataFromRust fromJson_sample (Some payload_malformed)
                 (run fromJson_sample [Some payload_scenario] Dialog_init))) barCPU1 = 0"
    by (simp add: ui_cycle_Some sample_docs object_def bars_update_widgets at_key_simps
          toDouble_simps)
  then have "bars (ui (updateDataFromRust fromJson_sample (Some payload_malformed)
                 (run fromJson_sample [Some payload_scenario] Dialog_init))) barCPU1
       \<noteq> bars (ui (run fromJson_sample [Some payload_scenario] Dialog_init)) barCPU1"
    unfolding scenario_cpu by simp
  then show ?thesis
    using sample_docs(5) by metis
qed

text \<open>
  C3, amended: a non-empty payload that cannot be parsed is not skipped: the null document
  gives the empty object, and the cycle writes the transform of 0 into every entry, so the
  display is the zero display afterwards, whatever it showed before.
\<close>

theorem malformed_payload_resets_display:
  assumes "fromJson s = NullDocument"
  shows "ui (updateDataFromRust fromJson (Some s) w) = zero_display"
  using assms by (simp add: ui_cycle_Some object_def ui_empty_object)

theorem malformed_payload_resets_display_witness:
  "fromJson_sample payload_malformed = NullDocument
   \<and> ui (updateDataFromRust fromJson_sample (Some payload_malformed) Dialog_init) = zero_display"
  using malformed_payload_resets_display
      [where fromJson = fromJson_sample and s = payload_malformed and w = Dialog_init,
       OF sample_docs(5)] sample_docs(5)
  by simp

subsection \<open>C6: the temperature\<close>

text \<open>
  C6: an input of 45500 gives the gauge value 45.5 and the label "45.5" followed by a space,
  the degree sign and "C". In general a temperature that is present as a number \<open>t\<close> gives
  as gauge value the quotient of \<open>t\<close> by 1000 as a double, and as label that same double in
  fixed notation followed by the unit: a text with exactly one digit after the point that
  denotes a number no further than 0.05 from the gauge value. The double differs from the
  exact quotient \<open>t / 1000\<close> by the rounding error of one division at most.
\<close>

theorem temperature_transform:
  "bars (ui (update_widgets [(''temperature'', JDouble 45500)] w)) barTemp = 45.5
   \<and> texts (ui (update_widgets [(''temperature'', JDouble 45500)] w)) freqTemp
       = ''45.5'' @ [CHR '' '', CHR 0xB0, CHR ''C'']
   \<and> (\<forall>obj t. map_of obj ''temperature'' = Some (JDouble t) \<longrightarrow>
          bars (ui (update_widgets obj w)) barTemp = fl (t / 1000)
        \<and> texts (ui (update_widgets obj w)) freqTemp
            = number_f (fl (t / 1000)) 1 @ [CHR '' '', CHR 0xB0, CHR ''C'']
        \<and> (\<exists>ip fr. number_f (fl (t / 1000)) 1 = ip @ ''.'' @ fr \<and> length fr = 1
              \<and> set fr \<subseteq> set ''0123456789'' \<and> CHR ''.'' \<notin> set ip)
        \<and> \<bar>read_fixed (number_f (fl (t / 1000)) 1) - fl (t / 1000)\<bar> \<le> 1 / 20
        \<and> (\<bar>t\<bar> < 2 ^ 1024 \<longrightarrow>
              \<bar>fl (t / 1000) - t / 1000\<bar> \<le> max (\<bar>t / 1000\<bar> / 2 ^ 53) (1 / 2 ^ 1075)))"
proof (intro conjI allI impI)
  show "bars (ui (update_widgets [(''temperature'', JDouble 45500)] w)) barTemp = 45.5"
    by (simp add: bars_update_widgets at_key_simps toDouble_simps fl_values)
  show "texts (ui (update_widgets [(''temperature'', JDouble 45500)] w)) freqTemp
          = ''45.5'' @ [CHR '' '', CHR 0xB0, CHR ''C'']"
    by (simp add: texts_update_widgets at_key_simps toDouble_simps number_f_values fl_values)
next
  fix obj t
  assume "map_of obj ''temperature'' = Some (JDouble t)"
  then have t: "toDouble (at_key obj ''temperature'') = t"
    by (rule toDouble_present)
  show "bars (ui (update_widgets obj w)) barTemp = fl (t / 1000)"
    by (simp add: bars_update_widgets t)
  show "texts (ui (update_widgets obj w)) freqTemp
          = number_f (fl (t / 1000)) 1 @ [CHR '' '', CHR 0xB0, CHR ''C'']"
    by (simp add: texts_update_widgets t)
  show "\<exists>ip fr. number_f (fl (t / 1000)) 1 = ip @ ''.'' @ fr \<and> length fr = 1
              \<and> set fr \<subseteq> set ''0123456789'' \<and> CHR ''.'' \<notin> set ip"
    by (rule number_f_decimals) simp
  show "\<bar>read_fixed (number_f (fl (t / 1000)) 1) - fl (t / 1000)\<bar> \<le> 1 / 20"
    using number_f_close [of 1 "fl (t / 1000)"] by simp
next
  fix t :: real
  assume "\<bar>t\<bar> < 2 ^ 1024"
  then have "\<bar>t / 1000\<bar> < 2 ^ 1024"
    by (simp add: abs_divide divide_less_eq)
  then show "\<bar>fl (t / 1000) - t / 1000\<bar> \<le> max (\<bar>t / 1000\<bar> / 2 ^ 53) (1 / 2 ^ 1075)"
    by (rule fl_error)
qed

theorem temperature_transform_witness:
  "bars (ui (update_widgets [(''temperature'', JDouble 45150)] Dialog_init)) barTemp
     = 6354297599243059 / 140737488355328
   \<and> texts (ui (update_widgets [(''temperature'', JDouble 45150)] Dialog_init)) freqTemp
       = ''45.1'' @ [CHR '' '', CHR 0xB0, CHR ''C'']
   \<and> \<bar>bars (ui (update_widgets [(''temperature'', JDouble 45150)] Dialog_init)) barTemp
        - 45150 / 1000\<bar> \<le> 1 / 2 ^ 47"
proof -
  have present: "map_of [(''temperature'', JDouble 45150)] ''temperature'' = Some (JDouble 45150)"
    by simp
  have small: "\<bar>45150 :: real\<bar> < 2 ^ 1024"
    by simp
  have "bars (ui (update_widgets [(''temperature'', JDouble 45150)] Dialog_init)) barTemp
               = fl (45150 / 1000)
      \<and> texts (ui (update_widgets [(''temperature'', JDouble 45150)] Dialog_init)) freqTemp
               = number_f (fl (45150 / 1000)) 1 @ [CHR '' '', CHR 0xB0, CHR ''C'']
      \<and> \<bar>fl (45150 / 1000) - 45150 / 1000\<bar> \<le> max (\<bar>45150 / 1000\<bar> / 2 ^ 53) (1 / 2 ^ 1075)"
    using temperature_transform [of Dialog_init] present small by blast
  then show ?thesis
    by (simp add: number_f_values fl_values)
qed

subsection \<open>C7: the frequencies\<close>

text \<open>
  C7: for each of the four frequency labels, when its field (\<open>cpu_freq\<close>, \<open>gpu_freq\<close>,
  \<open>npu_freq\<close>, \<open>rga_aclk_freq\<close>) is present as a number \<open>v\<close>, the label is the quotient of
  \<open>v\<close> by 1000000 as a double, in fixed notation, followed by " GHz": a text with exactly
  two digits after the point that denotes a number no further than 0.005 from that double.
  The double differs from the exact quotient \<open>v / 1000000\<close> by the rounding error of one
  division at most.
\<close>

theorem freq_labels_divided_and_formatted:
  assumes "l \<noteq> freqTemp" and "map_of obj (label_key l) = Some (JDouble v)"
  shows "texts (ui (update_widgets obj w)) l = number_f (fl (v / 1000000)) 2 @ '' GHz''
       \<and> (\<exists>ip fr. number_f (fl (v / 1000000)) 2 = ip @ ''.'' @ fr \<and> length fr = 2
              \<and> set fr \<subseteq> set ''0123456789'' \<and> CHR ''.'' \<notin> set ip)
       \<and> \<bar>read_fixed (number_f (fl (v / 1000000)) 2) - fl (v / 1000000)\<bar> \<le> 1 / 200
       \<and> (\<bar>v\<bar> < 2 ^ 1024 \<longrightarrow>
            \<bar>fl (v / 1000000) - v / 1000000\<bar> \<le> max (\<bar>v / 1000000\<bar> / 2 ^ 53) (1 / 2 ^ 1075))"
proof (intro conjI impI)
  have "toDouble (at_key obj (label_key l)) = v"
    using assms(2) by (rule toDouble_present)
  then show "texts (ui (update_widgets obj w)) l = number_f (fl (v / 1000000)) 2 @ '' GHz''"
    using assms(1) by (cases l) (simp_all add: texts_update_widgets label_key_def)
  show "\<exists>ip fr. number_f (fl (v / 1000000)) 2 = ip @ ''.'' @ fr \<and> length fr = 2
              \<and> set fr \<subseteq> set ''0123456789'' \<and> CHR ''.'' \<notin> set ip"
    by (rule number_f_decimals) simp
  show "\<bar>read_fixed (number_f (fl (v / 1000000)) 2) - fl (v / 1000000)\<bar> \<le> 1 / 200"
    using number_f_close [of 2 "fl (v / 1000000)"] by simp
next
  assume "\<bar>v\<bar> < 2 ^ 1024"
  then have "\<bar>v / 1000000\<bar> < 2 ^ 1024"
    by (simp add: abs_divide divide_less_eq)
  then show "\<bar>fl (v / 1000000) - v / 1000000\<bar> \<le> max (\<bar>v / 1000000\<bar> / 2 ^ 53) (1 / 2 ^ 1075)"
    by (rule fl_error)
qed

theorem freq_labels_divided_and_formatted_witness:
  "texts (ui (update_widgets [(''rga_aclk_freq'', JDouble 1800000000)] Dialog_init)) freqRGA1
     = ''1800.00 GHz''
   \<and> texts (ui (update_widgets [(''gpu_freq'', JDouble 2400000)] Dialog_init)) freqGPU
     = ''2.40 GHz''
   \<and> texts (ui (update_widgets [(''cpu_freq'', JDouble 1005000)] Dialog_init)) freqCPU1
     = ''1.00 GHz''"
proof -
  have "texts (ui (update_widgets [(''rga_aclk_freq'', JDouble 1800000000)] Dialog_init)) freqRGA1
     = number_f (fl (1800000000 / 1000000)) 2 @ '' GHz''"
    using freq_labels_divided_and_formatted
      [of freqRGA1 "[(''rga_aclk_freq'', JDouble 1800000000)]" 1800000000 Dialog_init]
    by (simp add: label_key_def)
  moreover have "texts (ui (update_widgets [(''gpu_freq'', JDouble 2400000)] Dialog_init)) freqGPU
     = number_f (fl (2400000 / 1000000)) 2 @ '' GHz''"
    using freq_labels_divided_and_formatted
      [of freqGPU "[(''gpu_freq'', JDouble 2400000)]" 2400000 Dialog_init]
    by (simp add: label_key_def)
  moreover have "texts (ui (update_widgets [(''cpu_freq'', JDouble 1005000)] Dialog_init)) freqCPU1
     = number_f (fl (1005000 / 1000000)) 2 @ '' GHz''"
    using freq_labels_divided_and_formatted
      [of freqCPU1 "[(''cpu_freq'', JDouble 1005000)]" 1005000 Dialog_init]
    by (simp add: label_key_def)
  ultimately show ?thesis
    by (simp add: number_f_values fl_values)
qed

subsection \<open>C8: the fan level\<close>

text \<open>
  C8, as stated: \<open>fan_state\<close> is truncated toward zero, so that 2.7 gives the fan level 2.
  It does not: the payload whose \<open>fan_state\<close> is 2.7 sets the fan gauge to 0.
\<close>

theorem fan_truncation_counterexample:
  "fromJson_sample payload_fan = ObjectDocument [(''fan_state'', JDouble 2.7)]
   \<and> bars (ui (updateDataFromRust fromJson_sample (Some payload_fan) Dialog_init)) barFan \<noteq> 2
   \<and> bars (ui (updateDataFromRust fromJson_sample (Some payload_fan) Dialog_init)) barFan = 0"
  by (simp add: ui_cycle_Some sample_docs object_def bars_update_widgets at_key_simps
        toInt_values)

text \<open>
  C8, amended: when \<open>fan_state\<close> is present as a whole number that fits a 32-bit \<open>int\<close>, that
  number is the fan gauge value as it is; when it is a number with a fractional part, it is
  not truncated: the fan gauge is set to 0.
\<close>

theorem fan_whole_number_or_zero:
  assumes "map_of obj ''fan_state'' = Some (JDouble d)"
  shows "(\<forall>i. d = real_of_int i \<and> - (2 ^ 31) \<le> i \<and> i < 2 ^ 31 \<longrightarrow>
            bars (ui (update_widgets obj w)) barFan = real_of_int i)
       \<and> (real_of_int \<lfloor>d\<rfloor> \<noteq> d \<longrightarrow> bars (ui (update_widgets obj w)) barFan = 0)"
proof -
  have "at_key obj ''fan_state'' = JDouble d"
    using assms by (simp add: at_key_def)
  then show ?thesis
    by (auto simp: bars_update_widgets toInt_def)
qed

theorem fan_whole_number_or_zero_witness:
  "bars (ui (update_widgets [(''fan_state'', JDouble 2)] Dialog_init)) barFan = 2
   \<and> bars (ui (update_widgets [(''fan_state'', JDouble 2.7)] Dialog_init)) barFan = 0"
proof -
  have "bars (ui (update_widgets [(''fan_state'', JDouble 2)] Dialog_init)) barFan = real_of_int 2"
    using fan_whole_number_or_zero [of "[(''fan_state'', JDouble 2)]" 2 Dialog_init]
    by simp
  moreover have "bars (ui (update_widgets [(''fan_state'', JDouble 2.7)] Dialog_init)) barFan = 0"
    using fan_whole_number_or_zero [of "[(''fan_state'', JDouble 2.7)]" "2.7" Dialog_init]
    by simp
  ultimately show ?thesis by simp
qed

subsection \<open>C10: a cycle with a payload\<close>

text \<open>
  C10: whenever the provider returns a payload, whatever it decodes to, the cycle writes the
  thirteen outputs in the order of the source, each exactly once; an output whose field is
  absent shows the transform of 0; a payload that gives the empty object leaves the zero
  display; and the display after the cycle does not depend on the state before it.
\<close>

theorem non_null_payload_writes_every_output:
  "writes (calls (updateDataFromRust fromJson (Some s) w)) =
     writes (calls w) @
       [SetValue barCPU1, SetText freqCPU1, SetValue barGPU, SetText freqGPU,
        SetValue barNPU1, SetText freqNPU1, SetValue barRGA1, SetText freqRGA1,
        SetValue barMem, SetValue barSwap, SetValue barTemp, SetText freqTemp,
        SetValue barFan]
   \<and> (\<forall>g. count_list (drop (length (calls w)) (calls (updateDataFromRust fromJson (Some s) w)))
            (SetValue g) = 1)
   \<and> (\<forall>l. count_list (drop (length (calls w)) (calls (updateDataFromRust fromJson (Some s) w)))
            (SetText l) = 1)
   \<and> (\<forall>g. map_of (object (fromJson s)) (gauge_key g) = None \<longrightarrow>
          bars (ui (updateDataFromRust fromJson (Some s) w)) g = 0)
   \<and> (\<forall>l. map_of (object (fromJson s)) (label_key l) = None \<longrightarrow>
          texts (ui (updateDataFromRust fromJson (Some s) w)) l = texts zero_display l)
   \<and> (object (fromJson s) = [] \<longrightarrow> ui (updateDataFromRust fromJson (Some s) w) = zero_display)
   \<and> (\<forall>w'. ui (updateDataFromRust fromJson (Some s) w') = ui (updateDataFromRust fromJson (Some s) w))"
proof (intro conjI allI impI)
  show "writes (calls (updateDataFromRust fromJson (Some s) w)) =
     writes (calls w) @
       [SetValue barCPU1, SetText freqCPU1, SetValue barGPU, SetText freqGPU,
        SetValue barNPU1, SetText freqNPU1, SetValue barRGA1, SetText freqRGA1,
        SetValue barMem, SetValue barSwap, SetValue barTemp, SetText freqTemp,
        SetValue barFan]"
    by (rule writes_cycle_Some)
next
  fix g
  show "count_list (drop (length (calls w)) (calls (updateDataFromRust fromJson (Some s) w)))
            (SetValue g) = 1"
    by (simp add: cycle_Some calls_update_widgets written_once del: count_list.simps)
next
  fix l
  show "count_list (drop (length (calls w)) (calls (updateDataFromRust fromJson (Some s) w)))
            (SetText l) = 1"
    by (simp add: cycle_Some calls_update_widgets written_once del: count_list.simps)
next
  fix g
  assume "map_of (object (fromJson s)) (gauge_key g) = None"
  then show "bars (ui (updateDataFromRust fromJson (Some s) w)) g = 0"
    by (simp add: ui_cycle_Some bars_absent)
next
  fix l
  assume "map_of (object (fromJson s)) (label_key l) = None"
  then show "texts (ui (updateDataFromRust fromJson (Some s) w)) l = texts zero_display l"
    by (simp add: ui_cycle_Some texts_absent)
next
  assume "object (fromJson s) = []"
  then show "ui (updateDataFromRust fromJson (Some s) w) = zero_display"
    by (simp add: ui_cycle_Some ui_empty_object)
next
  fix w'
  show "ui (updateDataFromRust fromJson (Some s) w') = ui (updateDataFromRust fromJson (Some s) w)"
    unfolding ui_cycle_Some by (rule ui_update_widgets_any)
qed

theorem non_null_payload_writes_every_output_witness:
  "ui (updateDataFromRust fromJson_sample (Some payload_empty) Dialog_init) = zero_display
   \<and> bars (ui (updateDataFromRust fromJson_sample (Some payload_freq) Dialog_init)) barMem = 0
   \<and> texts (ui (updateDataFromRust fromJson_sample (Some payload_fan) Dialog_init)) freqNPU1
       = ''0.00 GHz''
   \<and> writes (calls (updateDataFromRust fromJson_sample (Some payload_empty) Dialog_init)) =
       [SetValue barCPU1, SetText freqCPU1, SetValue barGPU, SetText freqGPU,
        SetValue barNPU1, SetText freqNPU1, SetValue barRGA1, SetText freqRGA1,
        SetValue barMem, SetValue barSwap, SetValue barTemp, SetText freqTemp,
        SetValue barFan]"
proof -
  have "object (fromJson_sample payload_empty) = []"
    by (simp add: sample_docs object_def)
  then have "ui (updateDataFromRust fromJson_sample (Some payload_empty) Dialog_init) = zero_display"
    using non_null_payload_writes_every_output [of fromJson_sample payload_empty Dialog_init]
    by blast
  moreover have "map_of (object (fromJson_sample payload_freq)) (gauge_key barMem) = None"
    by (simp add: sample_docs object_def gauge_key_def)
  then have "bars (ui (updateDataFromRust fromJson_sample (Some payload_freq) Dialog_init)) barMem = 0"
    using non_null_payload_writes_every_output [of fromJson_sample payload_freq Dialog_init]
    by blast
  moreover have "map_of (object (fromJson_sample payload_fan)) (label_key freqNPU1) = None"
    by (simp add: sample_docs object_def label_key_def)
  then have "texts (ui (updateDataFromRust fromJson_sample (Some payload_fan) Dialog_init)) freqNPU1
       = texts zero_display freqNPU1"
    using non_null_payload_writes_every_output [of fromJson_sample payload_fan Dialog_init]
    by blast
  moreover have "writes (calls (updateDataFromRust fromJson_sample (Some payload_empty) Dialog_init)) =
     writes (calls Dialog_init) @
       [SetValue barCPU1, SetText freqCPU1, SetValue barGPU, SetText freqGPU,
        SetValue barNPU1, SetText freqNPU1, SetValue barRGA1, SetText freqRGA1,
        SetValue barMem, SetValue barSwap, SetValue barTemp, SetText freqTemp,
        SetValue barFan]"
    using non_null_payload_writes_every_output [of fromJson_sample payload_empty Dialog_init]
    by blast
  ultimately show ?thesis
    by (simp add: zero_display_def Dialog_init_def)
qed

end
